theory Spec2Isabelle
  imports Main "HOL-Library.AList"
begin

section \<open>The problem matcher engine of \<^verbatim>\<open>mod.ts\<close>\<close>

text \<open>
  A shallow embedding of \<^verbatim>\<open>mod.ts\<close>: the default export (here \<open>match\<close>),
  \<^verbatim>\<open>validateMatcher\<close>, \<^verbatim>\<open>singleMatch\<close>, \<^verbatim>\<open>loopMatch\<close> and
  \<^verbatim>\<open>runRegExp\<close>.

  Conventions of the embedding.
  \<^item> A JavaScript string is a \<open>string\<close>; a value that may be \<^verbatim>\<open>undefined\<close> (or
    \<^verbatim>\<open>null\<close>) is an \<open>option\<close>, with \<open>None\<close> for \<^verbatim>\<open>undefined\<close>.
  \<^item> An object built by the engine (\<^verbatim>\<open>Record<string, string>\<close>) is an association
    list from keys to values, in insertion order; a value may be \<^verbatim>\<open>undefined\<close>,
    because \<^verbatim>\<open>matches.severity = matcher.severity\<close> stores it as it is. Keys are
    ordinary property names (not \<^verbatim>\<open>__proto__\<close>). Only the values under the keys are
    observed: a record is read with \<open>map_of\<close> or \<open>jsGet\<close>.
  \<^item> A \<^verbatim>\<open>throw\<close> is \<open>Inl\<close> of the thrown error; a normal return is \<open>Inr\<close>.
  \<^item> The regular expression engine belongs to the JavaScript runtime, not to the
    repository. It is a parameter \<open>rx\<close> of the model: \<open>rx src\<close> is \<^verbatim>\<open>new RegExp(src)\<close>,
    \<open>None\<close> when the constructor throws a \<^verbatim>\<open>SyntaxError\<close>, and otherwise the compiled
    expression, seen as the function that takes a line to the result of
    \<^verbatim>\<open>line.match(re)\<close>. The expressions carry no flag, so \<^verbatim>\<open>match\<close> keeps no state
    between calls.
\<close>

subsection \<open>Data model\<close>

text \<open>
  The array returned by \<^verbatim>\<open>String.prototype.match\<close> for an expression without the
  \<^verbatim>\<open>g\<close> flag: index 0 is the whole matched text, index \<open>g\<close> the text of capture group
  \<open>g\<close>, \<^verbatim>\<open>undefined\<close> for a group that took no part in the match.
\<close>

type_synonym jsmatch = "string option list"

type_synonym regexp = "string \<Rightarrow> jsmatch option"

type_synonym jsrecord = "(string \<times> string option) list"

text \<open>
  \<^verbatim>\<open>Pattern\<close>: the key \<^verbatim>\<open>regexp\<close>, the optional key \<^verbatim>\<open>loop\<close>, and every other own
  key with its group number, in the order in which \<^verbatim>\<open>for (const k in pattern)\<close>
  enumerates them. A group number is an integer, as the documented \<^verbatim>\<open>Pattern\<close> type
  has it (\<^verbatim>\<open>file?: number\<close> and so on); it may be zero or negative.
\<close>

record Pattern =
  regexp :: string
  loop :: "bool option"
  entries :: "(string \<times> int) list"

record Matcher =
  owner :: string
  severity :: "string option"
  pattern :: "Pattern list"

text \<open>
  The errors. \<open>Error msg\<close> is \<^verbatim>\<open>new Error(msg)\<close> with a fixed message.
  \<open>InvalidCaptureGroup g k\<close> is the \<^verbatim>\<open>Error\<close> that \<^verbatim>\<open>runRegExp\<close> throws at lines 126
  to 128, whose message is a template filled with the group number \<open>g\<close> and the key
  \<open>k\<close>; the text of the message is \<open>errorMessage\<close> below. The other two are the errors
  that the runtime throws inside the engine (\<^verbatim>\<open>new RegExp\<close> on a malformed source, a
  property read on \<^verbatim>\<open>undefined\<close>).
\<close>

datatype error = Error string | InvalidCaptureGroup int string | SyntaxError | TypeError

subsection \<open>JavaScript primitives used by the engine\<close>

text \<open>Truthiness of an optional boolean (\<^verbatim>\<open>x.loop\<close>) and of an optional string.\<close>

fun truthyBool :: "bool option \<Rightarrow> bool" where
  "truthyBool None = False"
| "truthyBool (Some b) = b"

fun truthyStr :: "string option \<Rightarrow> bool" where
  "truthyStr None = False"
| "truthyStr (Some s) = (s \<noteq> [])"

text \<open>\<^verbatim>\<open>s[g]\<close> on a match array: \<^verbatim>\<open>undefined\<close> outside the array.\<close>

definition jsIndex :: "jsmatch \<Rightarrow> int \<Rightarrow> string option" where
  "jsIndex s g = (if 0 \<le> g \<and> nat g < length s then s ! nat g else None)"

text \<open>
  \<^verbatim>\<open>String.prototype.trim\<close>. A \<open>char\<close> stands for a code unit below 256; the white space
  and line terminators of JavaScript in that range are 9 to 13, 32 and 160.
\<close>

definition isWhiteSpace :: "char \<Rightarrow> bool" where
  "isWhiteSpace c = (c \<in> {CHR 0x09, CHR 0x0A, CHR 0x0B, CHR 0x0C, CHR 0x0D, CHR 0x20, CHR 0xA0})"

definition trim :: "string \<Rightarrow> string" where
  "trim s = rev (dropWhile isWhiteSpace (rev (dropWhile isWhiteSpace s)))"

text \<open>\<^verbatim>\<open>input.split("\n")\<close>: never the empty array; the empty input gives one empty line.\<close>

fun splitLines :: "string \<Rightarrow> string list" where
  "splitLines [] = [[]]"
| "splitLines (c # cs) =
     (if c = CHR 0x0A then [] # splitLines cs
      else (case splitLines cs of [] \<Rightarrow> [[c]] | l # ls \<Rightarrow> (c # l) # ls))"

text \<open>Reading a property: \<^verbatim>\<open>undefined\<close> when the key is absent or holds \<^verbatim>\<open>undefined\<close>.\<close>

definition jsGet :: "jsrecord \<Rightarrow> string \<Rightarrow> string option" where
  "jsGet r k = (case map_of r k of None \<Rightarrow> None | Some v \<Rightarrow> v)"

text \<open>
  \<^verbatim>\<open>{ ...a, ...b }\<close>: the properties of \<open>a\<close>, then each property of \<open>b\<close> assigned in
  turn; a key already there keeps its place and takes the new value. Spreading \<^verbatim>\<open>null\<close>
  adds nothing.
\<close>

definition spread :: "jsrecord \<Rightarrow> jsrecord \<Rightarrow> jsrecord" where
  "spread a b = fold (\<lambda>(k, v). AList.update k v) b a"

fun spreadNull :: "jsrecord \<Rightarrow> jsrecord option \<Rightarrow> jsrecord" where
  "spreadNull a None = a"
| "spreadNull a (Some b) = spread a b"

text \<open>The decimal numeral of an integer.\<close>

definition digit :: "nat \<Rightarrow> char" where
  "digit d = char_of (48 + d)"

fun decimalNat :: "nat \<Rightarrow> string" where
  "decimalNat n = (if n < 10 then [digit n] else decimalNat (n div 10) @ [digit (n mod 10)])"

definition decimal :: "int \<Rightarrow> string" where
  "decimal i = (if i < 0 then CHR ''-'' # decimalNat (nat (- i)) else decimalNat (nat i))"

text \<open>
  The template literal \<^verbatim>\<open>${n}\<close> of a number with an integer value. For a safe integer
  (\<^verbatim>\<open>Number.isSafeInteger\<close>: below \<open>2 ^ 53\<close> in absolute value) it is the decimal
  numeral. A larger number prints with rounded digits, and in exponent form from
  \<^verbatim>\<open>1e21\<close> on; that text depends on the floating point value and is not given here:
  \<open>None\<close>.
\<close>

definition isSafeInteger :: "int \<Rightarrow> bool" where
  "isSafeInteger i = (\<bar>i\<bar> < 2 ^ 53)"

definition numberText :: "int \<Rightarrow> string option" where
  "numberText i = (if isSafeInteger i then Some (decimal i) else None)"

subsection \<open>The error messages\<close>

definition msgPatternArray :: string where
  "msgPatternArray = ''matcher.pattern must be an array with at least one value''"

definition msgUnsupported :: string where
  "msgUnsupported = ''Unsupported pattern configuration. We currently support single pattern and multi-line loop pattern configurations''"

definition msgGroupZero :: string where
  "msgGroupZero = ''Group 0 is not a valid capture group (it contains the entire matched string)''"

text \<open>
  The message of an error, where the engine's code gives it: \<open>None\<close> for the runtime's
  own errors, and for a group number whose text is not given above.
\<close>

fun errorMessage :: "error \<Rightarrow> string option" where
  "errorMessage (Error msg) = Some msg"
| "errorMessage (InvalidCaptureGroup g k) =
     (case numberText g of
        None \<Rightarrow> None
      | Some t \<Rightarrow>
          Some (''Invalid capture group provided. Group '' @ t @ '' ('' @ k
                  @ '') does not exist in regexp''))"
| "errorMessage SyntaxError = None"
| "errorMessage TypeError = None"

subsection \<open>\<^verbatim>\<open>runRegExp\<close>\<close>

text \<open>
  The \<^verbatim>\<open>for (const k in pattern)\<close> loop of \<^verbatim>\<open>runRegExp\<close> (lines 114 to 132), over the
  keys still to visit, with the object \<^verbatim>\<open>matches\<close> built so far. \<^verbatim>\<open>!s[pattern[k]]\<close>
  holds when \<^verbatim>\<open>s[pattern[k]]\<close> is \<^verbatim>\<open>undefined\<close> and when it is the empty string.
  The second copy of the function in the repository tests \<^verbatim>\<open>!val || !s[val]\<close> instead,
  which is the same test for an integer that is not 0.
\<close>

fun projectFields :: "jsmatch \<Rightarrow> (string \<times> int) list \<Rightarrow> jsrecord \<Rightarrow> error + jsrecord" where
  "projectFields s [] matches = Inr matches"
| "projectFields s ((k, g) # kvs) matches =
     (if k = ''regexp'' \<or> k = ''loop'' then projectFields s kvs matches
      else if g = 0 then Inl (Error msgGroupZero)
      else (case jsIndex s g of
              None \<Rightarrow> Inl (InvalidCaptureGroup g k)
            | Some t \<Rightarrow>
                if t = [] then Inl (InvalidCaptureGroup g k)
                else projectFields s kvs (AList.update k (Some (trim t)) matches)))"

text \<open>The default severity (lines 134 to 136).\<close>

definition defaultSeverity :: "Matcher \<Rightarrow> jsrecord \<Rightarrow> jsrecord" where
  "defaultSeverity matcher matches =
     (if \<not> truthyStr (jsGet matches ''severity'')
      then AList.update ''severity'' (severity matcher) matches
      else matches)"

text \<open>
  The part of \<^verbatim>\<open>runRegExp\<close> that follows a successful \<^verbatim>\<open>line.match(re)\<close> (lines 113
  to 138), on the match array \<open>s\<close>.
\<close>

definition project :: "jsmatch \<Rightarrow> Pattern \<Rightarrow> Matcher \<Rightarrow> error + jsrecord" where
  "project s p matcher =
     (case projectFields s (entries p) [] of
        Inl e \<Rightarrow> Inl e
      | Inr matches \<Rightarrow> Inr (defaultSeverity matcher matches))"

text \<open>
  \<^verbatim>\<open>runRegExp(re, line, pattern, matcher)\<close>. The result \<open>Inr None\<close> is the \<^verbatim>\<open>null\<close> of a
  line that does not match. In \<^verbatim>\<open>loopMatch\<close> the variable \<^verbatim>\<open>line\<close> can hold
  \<^verbatim>\<open>undefined\<close> (the cast \<^verbatim>\<open>lines.shift() as string\<close> hides it), and
  \<^verbatim>\<open>line.match\<close> then throws a \<^verbatim>\<open>TypeError\<close>.
\<close>

definition runRegExp :: "regexp \<Rightarrow> string option \<Rightarrow> Pattern \<Rightarrow> Matcher \<Rightarrow> error + jsrecord option" where
  "runRegExp re line p matcher =
     (case line of
        None \<Rightarrow> Inl TypeError
      | Some l \<Rightarrow>
          (case re l of
             None \<Rightarrow> Inr None
           | Some s \<Rightarrow>
               (case project s p matcher of
                  Inl e \<Rightarrow> Inl e
                | Inr matches \<Rightarrow> Inr (Some matches))))"

subsection \<open>\<^verbatim>\<open>singleMatch\<close>\<close>

text \<open>The \<^verbatim>\<open>for (const line of input.split("\n"))\<close> loop, with the array \<^verbatim>\<open>lines\<close> built so far.\<close>

fun singleLoop :: "regexp \<Rightarrow> Pattern \<Rightarrow> Matcher \<Rightarrow> string list \<Rightarrow> jsrecord list \<Rightarrow> error + jsrecord list" where
  "singleLoop re p matcher [] acc = Inr acc"
| "singleLoop re p matcher (l # ls) acc =
     (case runRegExp re (Some l) p matcher of
        Inl e \<Rightarrow> Inl e
      | Inr None \<Rightarrow> singleLoop re p matcher ls acc
      | Inr (Some matches) \<Rightarrow> singleLoop re p matcher ls (acc @ [matches]))"

definition singleMatch :: "(string \<Rightarrow> regexp option) \<Rightarrow> Matcher \<Rightarrow> string \<Rightarrow> error + jsrecord list" where
  "singleMatch rx matcher input =
     (case pattern matcher of
        [] \<Rightarrow> Inl TypeError
      | p # _ \<Rightarrow>
          (case rx (regexp p) of
             None \<Rightarrow> Inl SyntaxError
           | Some re \<Rightarrow> singleLoop re p matcher (splitLines input) []))"

subsection \<open>\<^verbatim>\<open>loopMatch\<close>\<close>

text \<open>
  The innermost loop (lines 58 to 73), the loop phase of a loop pattern \<open>x\<close>, on the queue
  \<^verbatim>\<open>lines\<close> and the output \<^verbatim>\<open>matches\<close>. It returns the variable \<^verbatim>\<open>line\<close> as the loop
  leaves it, the queue and the output.
\<close>

fun loopPhase :: "regexp \<Rightarrow> Pattern \<Rightarrow> Matcher \<Rightarrow> jsrecord \<Rightarrow> string list \<Rightarrow> jsrecord list
    \<Rightarrow> error + (string option \<times> string list \<times> jsrecord list)" where
  "loopPhase re x matcher context [] matches = Inr (None, [], matches)"
| "loopPhase re x matcher context (l # ls) matches =
     (if l = [] then loopPhase re x matcher context ls matches
      else (case runRegExp re (Some l) x matcher of
              Inl e \<Rightarrow> Inl e
            | Inr None \<Rightarrow> Inr (Some l, l # ls, matches)
            | Inr (Some r) \<Rightarrow> loopPhase re x matcher context ls (matches @ [spread context r])))"

text \<open>
  The loop \<^verbatim>\<open>while ((x = patterns.shift()))\<close> (lines 45 to 74), over the patterns still
  to visit. Every pattern, the loop pattern too, is first run against the current
  \<^verbatim>\<open>line\<close> (line 49).
\<close>

fun patternsLoop :: "(string \<Rightarrow> regexp option) \<Rightarrow> Matcher \<Rightarrow> Pattern list \<Rightarrow> string option \<Rightarrow> jsrecord
    \<Rightarrow> string list \<Rightarrow> jsrecord list \<Rightarrow> error + (string list \<times> jsrecord list)" where
  "patternsLoop rx matcher [] line context lines matches = Inr (lines, matches)"
| "patternsLoop rx matcher (x # patterns) line context lines matches =
     (case rx (regexp x) of
        None \<Rightarrow> Inl SyntaxError
      | Some re \<Rightarrow>
          (case runRegExp re line x matcher of
             Inl e \<Rightarrow> Inl e
           | Inr r \<Rightarrow>
               if \<not> truthyBool (loop x)
               then patternsLoop rx matcher patterns line (spreadNull context r) lines matches
               else (case loopPhase re x matcher context lines matches of
                       Inl e \<Rightarrow> Inl e
                     | Inr (line', lines', matches') \<Rightarrow>
                         patternsLoop rx matcher patterns line' context lines' matches')))"

text \<open>
  The outer loop \<^verbatim>\<open>while (lines.length)\<close> (lines 36 to 75). Nothing in its shape says
  that it ends, so it is defined in the option monad: \<open>None\<close> is a run that never
  returns.
\<close>

partial_function (option) whileLines :: "(string \<Rightarrow> regexp option) \<Rightarrow> Matcher \<Rightarrow> string list
    \<Rightarrow> jsrecord list \<Rightarrow> (error + jsrecord list) option" where
  "whileLines rx matcher lines matches =
     (case lines of
        [] \<Rightarrow> Some (Inr matches)
      | l # ls \<Rightarrow>
          (case patternsLoop rx matcher (pattern matcher) (Some l) [] ls matches of
             Inl e \<Rightarrow> Some (Inl e)
           | Inr (lines', matches') \<Rightarrow> whileLines rx matcher lines' matches'))"

declare whileLines.simps [code]

definition loopMatch :: "(string \<Rightarrow> regexp option) \<Rightarrow> Matcher \<Rightarrow> string \<Rightarrow> (error + jsrecord list) option" where
  "loopMatch rx matcher input = whileLines rx matcher (splitLines input) []"

subsection \<open>\<^verbatim>\<open>validateMatcher\<close> and the default export\<close>

definition validateMatcher :: "Matcher \<Rightarrow> error + unit" where
  "validateMatcher matcher =
     (if length (pattern matcher) < 1 then Inl (Error msgPatternArray) else Inr ())"

definition match :: "(string \<Rightarrow> regexp option) \<Rightarrow> Matcher \<Rightarrow> string \<Rightarrow> (error + jsrecord list) option" where
  "match rx matcher input =
     (case validateMatcher matcher of
        Inl e \<Rightarrow> Some (Inl e)
      | Inr _ \<Rightarrow>
          if length (pattern matcher) = 1 then Some (singleMatch rx matcher input)
          else if truthyBool (loop (last (pattern matcher))) then loopMatch rx matcher input
          else Some (Inl (Error msgUnsupported)))"

subsection \<open>Reference formulations\<close>

text \<open>
  The results of a list of projections, in order, up to the first one that throws: what a
  loop that pushes each projection has built when it reaches the end, or the error that
  stopped it.
\<close>

fun collect :: "(error + 'a) list \<Rightarrow> error + 'a list" where
  "collect [] = Inr []"
| "collect (Inl e # rs) = Inl e"
| "collect (Inr a # rs) = (case collect rs of Inl e \<Rightarrow> Inl e | Inr as \<Rightarrow> Inr (a # as))"


text \<open>
  An entry of a pattern that the loop of \<^verbatim>\<open>runRegExp\<close> passes without throwing, on the
  match array \<open>s\<close>: a reserved key, or a non-zero group with non-empty captured text.
\<close>

definition projectable :: "jsmatch \<Rightarrow> string \<times> int \<Rightarrow> bool" where
  "projectable s e =
     (fst e = ''regexp'' \<or> fst e = ''loop'' \<or> (snd e \<noteq> 0 \<and> truthyStr (jsIndex s (snd e))))"

subsection \<open>Example expressions and matchers\<close>

text \<open>
  Two regular expressions, written out as the functions that \<^verbatim>\<open>line.match\<close> computes
  for them on a line without line terminator: \<^verbatim>\<open>/^([^:]*):([^:]*)$/\<close> matches a line
  with exactly one colon and captures the text before and after it (either may be empty);
  \<^verbatim>\<open>/^([^:]+)$/\<close> matches a non-empty line without colon and captures it.
\<close>

fun colonParts :: "string \<Rightarrow> string list" where
  "colonParts [] = [[]]"
| "colonParts (c # cs) =
     (if c = CHR '':'' then [] # colonParts cs
      else (case colonParts cs of [] \<Rightarrow> [[c]] | l # ls \<Rightarrow> (c # l) # ls))"

definition reEntry :: regexp where
  "reEntry l = (case colonParts l of [a, b] \<Rightarrow> Some [Some l, Some a, Some b] | _ \<Rightarrow> None)"

definition reName :: regexp where
  "reName l = (if l \<noteq> [] \<and> CHR '':'' \<notin> set l then Some [Some l, Some l] else None)"

text \<open>
  \<^verbatim>\<open>new RegExp\<close> on the two sources of the examples. The theorems hold for every
  engine; the examples use no other source, and on other sources this function does not
  stand for JavaScript.
\<close>

definition exampleRegExp :: "string \<Rightarrow> regexp option" where
  "exampleRegExp src =
     (if src = ''^([^:]*):([^:]*)$'' then Some reEntry
      else if src = ''^([^:]+)$'' then Some reName
      else None)"

definition namePattern :: Pattern where
  "namePattern = \<lparr>regexp = ''^([^:]+)$'', loop = None, entries = [(''file'', 1)]\<rparr>"

definition entryPattern :: Pattern where
  "entryPattern =
     \<lparr>regexp = ''^([^:]*):([^:]*)$'', loop = None, entries = [(''line'', 1), (''message'', 2)]\<rparr>"

definition entryLoopPattern :: Pattern where
  "entryLoopPattern = entryPattern\<lparr>loop := Some True\<rparr>"

definition zeroPattern :: Pattern where
  "zeroPattern =
     \<lparr>regexp = ''^([^:]*):([^:]*)$'', loop = None, entries = [(''message'', 0), (''file'', 1)]\<rparr>"

definition lateZeroPattern :: Pattern where
  "lateZeroPattern =
     \<lparr>regexp = ''^([^:]*):([^:]*)$'', loop = None, entries = [(''file'', 3), (''message'', 0)]\<rparr>"

definition singleMatcher :: Matcher where
  "singleMatcher = \<lparr>owner = ''example'', severity = Some ''error'', pattern = [entryPattern]\<rparr>"

definition loopMatcher :: Matcher where
  "loopMatcher =
     \<lparr>owner = ''example-loop'', severity = Some ''error'', pattern = [namePattern, entryLoopPattern]\<rparr>"

definition noLoopMatcher :: Matcher where
  "noLoopMatcher =
     \<lparr>owner = ''example'', severity = None, pattern = [namePattern, entryPattern]\<rparr>"

definition noOwnerMatcher :: Matcher where
  "noOwnerMatcher = \<lparr>owner = [], severity = None, pattern = [entryPattern]\<rparr>"



text \<open>
  An input of six lines: a name, two entries around a blank line, a second name and its
  entry. Then the context that the first line gives in \<open>loopMatcher\<close>, the queue after
  the first line, and a queue whose entries carry a severity.
\<close>

definition exampleInput :: string where
  "exampleInput =
     ''f.js'' @ [CHR 0x0A] @ ''1: typo'' @ [CHR 0x0A, CHR 0x0A] @ ''2:bad'' @ [CHR 0x0A] @ ''g.js''
       @ [CHR 0x0A] @ ''3:x''"







section \<open>Properties\<close>

subsection \<open>Objects and spreading\<close>

lemma map_of_spread:
  "distinct (map fst b) \<Longrightarrow> map_of (spread a b) = map_of a ++ map_of b"
  unfolding spread_def
proof (induction b arbitrary: a)
  case Nil
  show ?case by simp
next
  case (Cons kv b)
  obtain k v where kv: "kv = (k, v)" by (cases kv)
  from Cons.prems kv have k: "map_of b k = None" and d: "distinct (map fst b)"
    by (auto simp: map_of_eq_None_iff)
  show ?case
    using k by (auto simp: kv Cons.IH[OF d] update_conv' map_add_def fun_eq_iff split: option.splits)
qed

lemma distinct_spread:
  "distinct (map fst a) \<Longrightarrow> distinct (map fst (spread a b))"
  unfolding spread_def
  by (induction b arbitrary: a) (auto simp: distinct_update)

subsection \<open>Field projection\<close>

lemma projectFields_prefix:
  "\<forall>e\<in>set pre. projectable s e \<Longrightarrow>
     \<exists>acc'. projectFields s (pre @ rest) acc = projectFields s rest acc'"
proof (induction pre arbitrary: acc)
  case Nil
  show ?case by auto
next
  case (Cons e pre)
  obtain k g where e: "e = (k, g)" by (cases e)
  from Cons.prems have rest: "\<forall>e\<in>set pre. projectable s e" by simp
  from Cons.prems e have "k = ''regexp'' \<or> k = ''loop'' \<or> (g \<noteq> 0 \<and> truthyStr (jsIndex s g))"
    by (simp add: projectable_def)
  then show ?case
    using Cons.IH[OF rest] e
    by (cases "jsIndex s g") auto
qed

lemma projectFields_error:
  "projectFields s kvs acc = Inl e \<Longrightarrow>
     e = Error msgGroupZero \<or> (\<exists>(k, g)\<in>set kvs. e = InvalidCaptureGroup g k)"
proof (induction kvs arbitrary: acc)
  case Nil
  then show ?case by simp
next
  case (Cons kg kvs)
  obtain k g where kg: "kg = (k, g)" by (cases kg)
  consider (here) "e = Error msgGroupZero \<or> e = InvalidCaptureGroup g k"
    | (later) acc' where "projectFields s kvs acc' = Inl e"
    using Cons.prems kg by (auto split: if_splits option.splits)
  then show ?case
  proof cases
    case here
    then show ?thesis using kg by auto
  next
    case later
    from Cons.IH[OF later] show ?thesis by auto
  qed
qed

lemma projectFields_faulty:
  "(k, g) \<in> set kvs \<Longrightarrow> k \<noteq> ''regexp'' \<Longrightarrow> k \<noteq> ''loop'' \<Longrightarrow> g = 0 \<or> \<not> truthyStr (jsIndex s g) \<Longrightarrow>
     \<exists>e. projectFields s kvs acc = Inl e"
  by (induction kvs arbitrary: acc) (auto split: if_splits option.splits)

lemma projectFields_map_of_other:
  "projectFields s kvs acc = Inr r \<Longrightarrow> k \<notin> fst ` set kvs \<Longrightarrow> map_of r k = map_of acc k"
  by (induction kvs arbitrary: acc) (auto simp: update_conv' split: if_splits option.splits)

lemma projectFields_distinct:
  "projectFields s kvs acc = Inr r \<Longrightarrow> distinct (map fst acc) \<Longrightarrow> distinct (map fst r)"
  by (induction kvs arbitrary: acc) (auto simp: distinct_update split: if_splits option.splits)

lemma project_distinct: "project s p m = Inr r \<Longrightarrow> distinct (map fst r)"
  by (auto simp: project_def defaultSeverity_def distinct_update split: sum.splits if_splits
      dest!: projectFields_distinct)

lemma runRegExp_distinct: "runRegExp re line p m = Inr (Some r) \<Longrightarrow> distinct (map fst r)"
  by (auto simp: runRegExp_def split: option.splits sum.splits dest: project_distinct)

text \<open>
  Claim C1, as the specification states it, fails on the code: \<^verbatim>\<open>runRegExp\<close> returns
  \<^verbatim>\<open>null\<close> for a line that the expression does not match, before it looks at any
  group number; and on a line that matches, a field enumerated before the one mapped to
  group 0 can throw first. The pattern of the first example maps \<^verbatim>\<open>message\<close> to group
  0 and is run on a line without colon, which \<^verbatim>\<open>/^([^:]*):([^:]*)$/\<close> does not match;
  the pattern of the second maps \<^verbatim>\<open>file\<close> to the missing group 3 before it maps
  \<^verbatim>\<open>message\<close> to group 0.
\<close>

theorem runRegExp_group_zero_counterexample:
  "(''message'', 0) \<in> set (entries zeroPattern) \<and>
   runRegExp reEntry (Some ''f.js'') zeroPattern singleMatcher = Inr None \<and>
   (''message'', 0) \<in> set (entries lateZeroPattern) \<and>
   runRegExp reEntry (Some ''1:x'') lateZeroPattern singleMatcher
     = Inl (InvalidCaptureGroup 3 ''file'') \<and>
   errorMessage (InvalidCaptureGroup 3 ''file'')
     = Some ''Invalid capture group provided. Group 3 (file) does not exist in regexp''"
  by code_simp

text \<open>
  Claim C1, amended. On a line that the expression does not match, \<^verbatim>\<open>runRegExp\<close>
  returns \<^verbatim>\<open>null\<close> and throws nothing. On a line that it matches, a pattern that maps
  a field to group 0 always throws and returns no record: the "Group 0 is not a valid
  capture group" error, or the invalid capture group error of a field of the pattern. It
  is the "Group 0 is not a valid capture group" error when every field enumerated before
  that field has a non-zero group with non-empty captured text.
\<close>

theorem runRegExp_group_zero:
  "(re l = None \<longrightarrow> runRegExp re (Some l) p m = Inr None) \<and>
   (re l = Some s \<and> (k, 0) \<in> set (entries p) \<and> k \<noteq> ''regexp'' \<and> k \<noteq> ''loop''
      \<longrightarrow> runRegExp re (Some l) p m =
            Inl (Error ''Group 0 is not a valid capture group (it contains the entire matched string)'')
          \<or> (\<exists>k' g'. (k', g') \<in> set (entries p)
                \<and> runRegExp re (Some l) p m = Inl (InvalidCaptureGroup g' k'))) \<and>
   (re l = Some s \<and> entries p = pre @ (k, 0) # post \<and> k \<noteq> ''regexp'' \<and> k \<noteq> ''loop''
      \<and> (\<forall>e\<in>set pre. projectable s e)
      \<longrightarrow> runRegExp re (Some l) p m =
          Inl (Error ''Group 0 is not a valid capture group (it contains the entire matched string)''))"
proof (intro conjI impI)
  assume "re l = None"
  then show "runRegExp re (Some l) p m = Inr None" by (simp add: runRegExp_def)
next
  assume a: "re l = Some s \<and> (k, 0) \<in> set (entries p) \<and> k \<noteq> ''regexp'' \<and> k \<noteq> ''loop''"
  then obtain e where e: "projectFields s (entries p) [] = Inl e"
    using projectFields_faulty[of k 0 "entries p" s "[]"] by auto
  from a e have r: "runRegExp re (Some l) p m = Inl e"
    by (simp add: runRegExp_def project_def)
  from projectFields_error[OF e]
  have "e = Error ''Group 0 is not a valid capture group (it contains the entire matched string)''
      \<or> (\<exists>k' g'. (k', g') \<in> set (entries p) \<and> e = InvalidCaptureGroup g' k')"
    by (auto simp: msgGroupZero_def)
  with r show "runRegExp re (Some l) p m =
            Inl (Error ''Group 0 is not a valid capture group (it contains the entire matched string)'')
          \<or> (\<exists>k' g'. (k', g') \<in> set (entries p)
                \<and> runRegExp re (Some l) p m = Inl (InvalidCaptureGroup g' k'))"
    by auto
next
  assume a: "re l = Some s \<and> entries p = pre @ (k, 0) # post \<and> k \<noteq> ''regexp'' \<and> k \<noteq> ''loop''
      \<and> (\<forall>e\<in>set pre. projectable s e)"
  then obtain acc' where "projectFields s (entries p) [] = projectFields s ((k, 0) # post) acc'"
    using projectFields_prefix[of pre s "(k, 0) # post" "[]"] by auto
  with a have "projectFields s (entries p) [] = Inl (Error msgGroupZero)" by simp
  with a show "runRegExp re (Some l) p m =
      Inl (Error ''Group 0 is not a valid capture group (it contains the entire matched string)'')"
    by (simp add: runRegExp_def project_def msgGroupZero_def)
qed

theorem runRegExp_group_zero_witness:
  "runRegExp reEntry (Some ''f.js'') zeroPattern singleMatcher = Inr None \<and>
   runRegExp reEntry (Some ''1:x'') zeroPattern singleMatcher =
     Inl (Error ''Group 0 is not a valid capture group (it contains the entire matched string)'')"
proof -
  have n: "reEntry ''f.js'' = None" by code_simp
  have s: "reEntry ''1:x'' = Some [Some ''1:x'', Some ''1'', Some ''x'']" by code_simp
  have e: "entries zeroPattern = [] @ (''message'', 0) # [(''file'', 1)]" by code_simp
  have k: "''message'' \<noteq> ''regexp'' \<and> ''message'' \<noteq> ''loop''" by simp
  from runRegExp_group_zero[where re = reEntry and l = "''f.js''" and p = zeroPattern and m = singleMatcher] n
  have 1: "runRegExp reEntry (Some ''f.js'') zeroPattern singleMatcher = Inr None" by blast
  from runRegExp_group_zero[where re = reEntry and l = "''1:x''" and p = zeroPattern and m = singleMatcher
      and k = "''message''" and pre = "[]" and post = "[(''file'', 1)]"
      and s = "[Some ''1:x'', Some ''1'', Some ''x'']"]
    s e k
  have 2: "runRegExp reEntry (Some ''1:x'') zeroPattern singleMatcher =
     Inl (Error ''Group 0 is not a valid capture group (it contains the entire matched string)'')"
    by simp
  from 1 2 show ?thesis by simp
qed

text \<open>
  Claim C10, as stated, fails on the code when a field enumerated earlier throws first:
  here \<^verbatim>\<open>file\<close> is mapped to group 1, which exists and captured the empty string on
  the line \<^verbatim>\<open>:x\<close>, but \<^verbatim>\<open>message\<close>, mapped to group 0, comes first and the error is
  the one of group 0.
\<close>

theorem runRegExp_empty_capture_counterexample:
  "reEntry '':x'' = Some [Some '':x'', Some [], Some ''x''] \<and>
   (''file'', 1) \<in> set (entries zeroPattern) \<and>
   jsIndex [Some '':x'', Some [], Some ''x''] 1 = Some [] \<and>
   runRegExp reEntry (Some '':x'') zeroPattern singleMatcher =
     Inl (Error ''Group 0 is not a valid capture group (it contains the entire matched string)'')"
  by code_simp

text \<open>
  Claim C10, amended. When the expression matches the line and a field is mapped to a
  group without text (it captured the empty string, or took no part in the match, or is
  not a group of the expression: \<open>truthyStr\<close> is false for all three),
  \<^verbatim>\<open>runRegExp\<close> throws and returns no record, so no field ever holds an empty
  capture: the error is the one of group 0 or an invalid capture group error of some
  field. It is the invalid capture group error of that field and its group when the
  group is not 0 and every field enumerated before it has a non-zero group with
  non-empty captured text: the test \<^verbatim>\<open>!s[pattern[k]]\<close> does not tell an empty
  capture from a missing group. Its message is "Invalid capture group provided. Group g
  (field) does not exist in regexp" with the decimal numeral of the group, for a group
  number that is a safe integer.
\<close>

theorem runRegExp_empty_capture:
  "(re l = Some s \<and> (k, g) \<in> set (entries p) \<and> k \<noteq> ''regexp'' \<and> k \<noteq> ''loop''
      \<and> \<not> truthyStr (jsIndex s g)
      \<longrightarrow> runRegExp re (Some l) p m =
            Inl (Error ''Group 0 is not a valid capture group (it contains the entire matched string)'')
          \<or> (\<exists>k' g'. (k', g') \<in> set (entries p)
                \<and> runRegExp re (Some l) p m = Inl (InvalidCaptureGroup g' k'))) \<and>
   (re l = Some s \<and> entries p = pre @ (k, g) # post \<and> k \<noteq> ''regexp'' \<and> k \<noteq> ''loop''
      \<and> g \<noteq> 0 \<and> \<not> truthyStr (jsIndex s g) \<and> (\<forall>e\<in>set pre. projectable s e)
      \<longrightarrow> runRegExp re (Some l) p m = Inl (InvalidCaptureGroup g k) \<and>
          (isSafeInteger g \<longrightarrow>
             errorMessage (InvalidCaptureGroup g k) =
               Some (''Invalid capture group provided. Group '' @ decimal g @ '' ('' @ k
                       @ '') does not exist in regexp'')))"
proof (intro conjI impI)
  assume a: "re l = Some s \<and> (k, g) \<in> set (entries p) \<and> k \<noteq> ''regexp'' \<and> k \<noteq> ''loop''
      \<and> \<not> truthyStr (jsIndex s g)"
  then obtain e where e: "projectFields s (entries p) [] = Inl e"
    using projectFields_faulty[of k g "entries p" s "[]"] by auto
  from a e have r: "runRegExp re (Some l) p m = Inl e"
    by (simp add: runRegExp_def project_def)
  from projectFields_error[OF e]
  have "e = Error ''Group 0 is not a valid capture group (it contains the entire matched string)''
      \<or> (\<exists>k' g'. (k', g') \<in> set (entries p) \<and> e = InvalidCaptureGroup g' k')"
    by (auto simp: msgGroupZero_def)
  with r show "runRegExp re (Some l) p m =
            Inl (Error ''Group 0 is not a valid capture group (it contains the entire matched string)'')
          \<or> (\<exists>k' g'. (k', g') \<in> set (entries p)
                \<and> runRegExp re (Some l) p m = Inl (InvalidCaptureGroup g' k'))"
    by auto
next
  assume a: "re l = Some s \<and> entries p = pre @ (k, g) # post \<and> k \<noteq> ''regexp'' \<and> k \<noteq> ''loop''
      \<and> g \<noteq> 0 \<and> \<not> truthyStr (jsIndex s g) \<and> (\<forall>e\<in>set pre. projectable s e)"
  then obtain acc' where "projectFields s (entries p) [] = projectFields s ((k, g) # post) acc'"
    using projectFields_prefix[of pre s "(k, g) # post" "[]"] by auto
  with a have "projectFields s (entries p) [] = Inl (InvalidCaptureGroup g k)"
    by (cases "jsIndex s g") auto
  with a show "runRegExp re (Some l) p m = Inl (InvalidCaptureGroup g k)"
    by (simp add: runRegExp_def project_def)
next
  assume "isSafeInteger g"
  then show "errorMessage (InvalidCaptureGroup g k) =
               Some (''Invalid capture group provided. Group '' @ decimal g @ '' ('' @ k
                       @ '') does not exist in regexp'')"
    by (simp add: numberText_def)
qed

theorem runRegExp_empty_capture_witness:
  "reEntry ''1:'' = Some [Some ''1:'', Some ''1'', Some []] \<and>
   jsIndex [Some ''1:'', Some ''1'', Some []] 2 = Some [] \<and>
   runRegExp reEntry (Some ''1:'') entryPattern singleMatcher
     = Inl (InvalidCaptureGroup 2 ''message'') \<and>
   errorMessage (InvalidCaptureGroup 2 ''message'')
     = Some ''Invalid capture group provided. Group 2 (message) does not exist in regexp''"
proof -
  have s: "reEntry ''1:'' = Some [Some ''1:'', Some ''1'', Some []]" by code_simp
  have e: "entries entryPattern = [(''line'', 1)] @ (''message'', 2) # []" by code_simp
  have k: "''message'' \<noteq> ''regexp'' \<and> ''message'' \<noteq> ''loop'' \<and> (2::int) \<noteq> 0" by simp
  have j: "jsIndex [Some ''1:'', Some ''1'', Some []] 2 = Some []" by code_simp
  have j': "\<not> truthyStr (jsIndex [Some ''1:'', Some ''1'', Some []] 2)" by code_simp
  have q: "\<forall>e\<in>set [(''line'', 1::int)]. projectable [Some ''1:'', Some ''1'', Some []] e"
    by code_simp
  have sf: "isSafeInteger 2" by code_simp
  have d: "decimal 2 = ''2''" by code_simp
  from runRegExp_empty_capture[where re = reEntry and l = "''1:''" and p = entryPattern
      and m = singleMatcher and s = "[Some ''1:'', Some ''1'', Some []]" and k = "''message''"
      and g = 2 and pre = "[(''line'', 1)]" and post = "[]"] s e k j' q sf
  have "runRegExp reEntry (Some ''1:'') entryPattern singleMatcher
          = Inl (InvalidCaptureGroup 2 ''message'') \<and>
        errorMessage (InvalidCaptureGroup 2 ''message'') =
          Some (''Invalid capture group provided. Group '' @ decimal 2 @ '' ('' @ ''message''
                  @ '') does not exist in regexp'')"
    by blast
  then show ?thesis using s j by (simp add: d)
qed

text \<open>
  Claim C7. When a pattern without \<^verbatim>\<open>severity\<close> key matches a line, the record that
  \<^verbatim>\<open>runRegExp\<close> returns has the matcher's severity as its \<^verbatim>\<open>severity\<close>,
  \<^verbatim>\<open>undefined\<close> when the matcher has none. The same holds for the record that loop mode
  pushes, which is this record spread over the context, whatever the context holds.
\<close>

theorem runRegExp_default_severity:
  assumes "runRegExp re line p m = Inr (Some r)" and "''severity'' \<notin> fst ` set (entries p)"
  shows "jsGet r ''severity'' = severity m \<and> jsGet (spread context r) ''severity'' = severity m"
proof -
  from assms(1) obtain s where p: "project s p m = Inr r"
    by (auto simp: runRegExp_def split: option.splits sum.splits)
  then obtain f where f: "projectFields s (entries p) [] = Inr f" and r: "r = defaultSeverity m f"
    by (auto simp: project_def split: sum.splits)
  from projectFields_map_of_other[OF f assms(2)] have "map_of f ''severity'' = None" by simp
  then have m: "map_of r ''severity'' = Some (severity m)"
    by (simp add: r defaultSeverity_def jsGet_def update_conv')
  have d: "distinct (map fst r)" using p by (rule project_distinct)
  from m have 1: "jsGet r ''severity'' = severity m" by (simp add: jsGet_def)
  from m have 2: "jsGet (spread context r) ''severity'' = severity m"
    by (simp add: jsGet_def map_of_spread[OF d] map_add_def)
  from 1 2 show ?thesis by simp
qed

theorem runRegExp_default_severity_witness:
  "runRegExp reEntry (Some ''1:x'') entryPattern noOwnerMatcher
     = Inr (Some [(''line'', Some ''1''), (''message'', Some ''x''), (''severity'', None)]) \<and>
   ''severity'' \<notin> fst ` set (entries entryPattern) \<and>
   jsGet [(''line'', Some ''1''), (''message'', Some ''x''), (''severity'', None)] ''severity''
     = severity noOwnerMatcher \<and>
   jsGet (spread [(''severity'', Some ''warning'')]
       [(''line'', Some ''1''), (''message'', Some ''x''), (''severity'', None)]) ''severity'' = None"
proof -
  have h1: "runRegExp reEntry (Some ''1:x'') entryPattern noOwnerMatcher
     = Inr (Some [(''line'', Some ''1''), (''message'', Some ''x''), (''severity'', None)])"
    by code_simp
  have h2: "''severity'' \<notin> fst ` set (entries entryPattern)" by code_simp
  have h3: "severity noOwnerMatcher = None" by code_simp
  from runRegExp_default_severity[OF h1 h2, of "[(''severity'', Some ''warning'')]"] h1 h2 h3
  show ?thesis by simp
qed

subsection \<open>Single mode\<close>

lemma singleLoop_collect:
  "singleLoop re p m ls acc =
     (case collect (map (\<lambda>s. project s p m) (List.map_filter re ls)) of
        Inl e \<Rightarrow> Inl e
      | Inr rs \<Rightarrow> Inr (acc @ rs))"
proof (induction ls arbitrary: acc)
  case Nil
  show ?case by (simp add: map_filter_simps)
next
  case (Cons l ls)
  show ?case
  proof (cases "re l")
    case None
    then show ?thesis by (simp add: Cons.IH runRegExp_def map_filter_simps)
  next
    case (Some s)
    then show ?thesis
      by (cases "project s p m") (auto simp: Cons.IH runRegExp_def map_filter_simps split: sum.splits)
  qed
qed

text \<open>
  Claim C5. For a matcher with exactly one pattern, whose source is a regular expression,
  the engine returns the projections of the lines of the input that the expression
  matches, in the order of the lines: \<open>List.map_filter re\<close> keeps the match arrays of the
  matching lines and drops the other lines, which are never projected and so cannot
  throw. The result is an error only when the projection of a matching line throws, and
  an input without matching line gives the empty array.
\<close>

theorem singleMatch_projections:
  assumes "pattern m = [p]" and "rx (regexp p) = Some re"
  shows "match rx m input
           = Some (collect (map (\<lambda>s. project s p m) (List.map_filter re (splitLines input)))) \<and>
         ((\<forall>l\<in>set (splitLines input). re l = None) \<longrightarrow> match rx m input = Some (Inr []))"
proof -
  have 1: "match rx m input
      = Some (collect (map (\<lambda>s. project s p m) (List.map_filter re (splitLines input))))"
    using assms
    by (simp add: match_def validateMatcher_def singleMatch_def singleLoop_collect split: sum.splits)
  have "List.map_filter re (splitLines input) = []" if "\<forall>l\<in>set (splitLines input). re l = None"
    using that by (simp add: List.map_filter_def filter_empty_conv)
  with 1 show ?thesis by simp
qed

theorem singleMatch_projections_witness:
  "pattern singleMatcher = [entryPattern] \<and> exampleRegExp (regexp entryPattern) = Some reEntry \<and>
   List.map_filter reEntry (splitLines exampleInput)
     = [[Some ''1: typo'', Some ''1'', Some '' typo''], [Some ''2:bad'', Some ''2'', Some ''bad''],
        [Some ''3:x'', Some ''3'', Some ''x'']] \<and>
   match exampleRegExp singleMatcher exampleInput
     = Some (Inr [[(''line'', Some ''1''), (''message'', Some ''typo''), (''severity'', Some ''error'')],
                  [(''line'', Some ''2''), (''message'', Some ''bad''), (''severity'', Some ''error'')],
                  [(''line'', Some ''3''), (''message'', Some ''x''), (''severity'', Some ''error'')]]) \<and>
   map reEntry (splitLines ''f.js'') = [None] \<and>
   match exampleRegExp singleMatcher ''f.js'' = Some (Inr [])"
proof -
  have h1: "pattern singleMatcher = [entryPattern]" by code_simp
  have h2: "exampleRegExp (regexp entryPattern) = Some reEntry"
    by (simp add: exampleRegExp_def entryPattern_def)
  have h3: "List.map_filter reEntry (splitLines exampleInput)
     = [[Some ''1: typo'', Some ''1'', Some '' typo''], [Some ''2:bad'', Some ''2'', Some ''bad''],
        [Some ''3:x'', Some ''3'', Some ''x'']]"
    by code_simp
  have h4: "collect (map (\<lambda>s. project s entryPattern singleMatcher)
       [[Some ''1: typo'', Some ''1'', Some '' typo''], [Some ''2:bad'', Some ''2'', Some ''bad''],
        [Some ''3:x'', Some ''3'', Some ''x'']])
     = Inr [[(''line'', Some ''1''), (''message'', Some ''typo''), (''severity'', Some ''error'')],
            [(''line'', Some ''2''), (''message'', Some ''bad''), (''severity'', Some ''error'')],
            [(''line'', Some ''3''), (''message'', Some ''x''), (''severity'', Some ''error'')]]"
    by code_simp
  have h5: "\<forall>l\<in>set (splitLines ''f.js''). reEntry l = None" by code_simp
  have h6: "map reEntry (splitLines ''f.js'') = [None]" by code_simp
  from singleMatch_projections[where rx = exampleRegExp and input = exampleInput, OF h1 h2]
    singleMatch_projections[where rx = exampleRegExp and input = "''f.js''", OF h1 h2]
    h1 h2 h3 h4 h5 h6
  show ?thesis by simp
qed

subsection \<open>Loop mode\<close>

lemma loopPhase_length:
  "loopPhase re x m c lines ms = Inr (line', lines', ms') \<Longrightarrow> length lines' \<le> length lines"
  by (induction lines arbitrary: ms) (auto split: if_splits sum.splits option.splits intro: le_SucI)

lemma patternsLoop_length:
  "patternsLoop rx m ps line c lines ms = Inr (lines', ms') \<Longrightarrow> length lines' \<le> length lines"
proof (induction ps arbitrary: line c lines ms)
  case Nil
  then show ?case by simp
next
  case (Cons x ps)
  from Cons.prems obtain re r where re: "rx (regexp x) = Some re"
    and r: "runRegExp re line x m = Inr r"
    by (auto split: option.splits sum.splits)
  show ?case
  proof (cases "truthyBool (loop x)")
    case False
    with Cons.prems re r have "patternsLoop rx m ps line (spreadNull c r) lines ms = Inr (lines', ms')"
      by simp
    then show ?thesis by (rule Cons.IH)
  next
    case True
    with Cons.prems re r obtain l2 ls2 ms2 where ph: "loopPhase re x m c lines ms = Inr (l2, ls2, ms2)"
      and rest: "patternsLoop rx m ps l2 c ls2 ms2 = Inr (lines', ms')"
      by (auto split: sum.splits)
    from Cons.IH[OF rest] loopPhase_length[OF ph] show ?thesis by simp
  qed
qed

lemma whileLines_total: "\<exists>r. whileLines rx m lines ms = Some r"
proof (induction "length lines" arbitrary: lines ms rule: less_induct)
  case less
  show ?case
  proof (cases lines)
    case Nil
    then show ?thesis by (simp add: whileLines.simps)
  next
    case (Cons l ls)
    show ?thesis
    proof (cases "patternsLoop rx m (pattern m) (Some l) [] ls ms")
      case (Inl e)
      then show ?thesis using Cons by (simp add: whileLines.simps)
    next
      case (Inr q)
      obtain lines' ms' where q: "q = (lines', ms')" by (cases q)
      from Inr q have "length lines' \<le> length ls" by (auto dest: patternsLoop_length)
      then have "length lines' < length lines" using Cons by simp
      from less[OF this] obtain r where "whileLines rx m lines' ms' = Some r" by blast
      then show ?thesis using Cons Inr q by (simp add: whileLines.simps)
    qed
  qed
qed











lemma whileLines_Cons:
  "whileLines rx m (l # ls) ms =
     (case patternsLoop rx m (pattern m) (Some l) [] ls ms of
        Inl e \<Rightarrow> Some (Inl e)
      | Inr (lines', ms') \<Rightarrow> whileLines rx m lines' ms')"
  by (subst whileLines.simps) simp










text \<open>
  Claim C6. For every matcher and every input, \<^verbatim>\<open>loopMatch\<close> returns (a result or a
  thrown error), and so does the engine as a whole: the outer loop is defined in the
  option monad, where a run that never returns is \<open>None\<close>, and it is never \<open>None\<close>.
  The reason is the one the specification gives: an outer iteration that starts on the
  queue \<open>l # ls\<close> and does not throw leaves a strictly shorter queue, whatever the
  patterns match, because the context line \<open>l\<close> is gone and the patterns only take
  further lines away.
\<close>

theorem loopMatch_terminates:
  "(\<exists>r. loopMatch rx m input = Some r) \<and>
   (\<exists>r. match rx m input = Some r) \<and>
   (\<forall>l ls ms lines' ms'.
      patternsLoop rx m (pattern m) (Some l) [] ls ms = Inr (lines', ms')
        \<longrightarrow> length lines' < length (l # ls))"
proof -
  have a: "\<exists>r. loopMatch rx m input = Some r"
    unfolding loopMatch_def by (rule whileLines_total)
  have b: "\<exists>r. match rx m input = Some r"
    using a by (simp add: match_def split: sum.splits)
  have c: "length lines' < length (l # ls)"
    if "patternsLoop rx m (pattern m) (Some l) [] ls ms = Inr (lines', ms')"
    for l ls ms lines' ms'
    using patternsLoop_length[OF that] by simp
  from a b c show ?thesis by blast
qed

theorem loopMatch_terminates_witness:
  "(\<exists>r. loopMatch exampleRegExp loopMatcher exampleInput = Some r) \<and>
   patternsLoop exampleRegExp loopMatcher (pattern loopMatcher) (Some ''f.js'') []
     [''1: typo'', [], ''2:bad'', ''g.js'', ''3:x''] []
     = Inr ([''g.js'', ''3:x''],
         [[(''file'', Some ''f.js''), (''severity'', Some ''error''),
           (''line'', Some ''1''), (''message'', Some ''typo'')],
          [(''file'', Some ''f.js''), (''severity'', Some ''error''),
           (''line'', Some ''2''), (''message'', Some ''bad'')]]) \<and>
   length [''g.js'', ''3:x''] < length [''f.js'', ''1: typo'', [], ''2:bad'', ''g.js'', ''3:x'']"
proof -
  have h: "patternsLoop exampleRegExp loopMatcher (pattern loopMatcher) (Some ''f.js'') []
     [''1: typo'', [], ''2:bad'', ''g.js'', ''3:x''] []
     = Inr ([''g.js'', ''3:x''],
         [[(''file'', Some ''f.js''), (''severity'', Some ''error''),
           (''line'', Some ''1''), (''message'', Some ''typo'')],
          [(''file'', Some ''f.js''), (''severity'', Some ''error''),
           (''line'', Some ''2''), (''message'', Some ''bad'')]])"
    by code_simp
  from loopMatch_terminates[of exampleRegExp loopMatcher exampleInput] h
  show ?thesis by blast
qed

subsection \<open>Validation and mode dispatch\<close>

text \<open>
  Claim C9. A matcher with more than one pattern whose last pattern does not have
  \<^verbatim>\<open>loop\<close> set to \<^verbatim>\<open>true\<close> (the key is absent, or \<^verbatim>\<open>false\<close>) makes the engine
  throw the "Unsupported pattern configuration" error, for every input and every
  regular expression engine: the result does not depend on the input.
\<close>

theorem match_unsupported:
  assumes "1 < length (pattern m)" and "loop (last (pattern m)) \<noteq> Some True"
  shows "match rx m input = Some (Inl (Error
    ''Unsupported pattern configuration. We currently support single pattern and multi-line loop pattern configurations''))"
proof -
  from assms(2) have "\<not> truthyBool (loop (last (pattern m)))"
    by (cases "loop (last (pattern m))") auto
  moreover from assms(1) have "pattern m \<noteq> []" by auto
  ultimately show ?thesis
    using assms(1) by (simp add: match_def validateMatcher_def msgUnsupported_def)
qed

theorem match_unsupported_witness:
  "1 < length (pattern noLoopMatcher) \<and> loop (last (pattern noLoopMatcher)) \<noteq> Some True \<and>
   match exampleRegExp noLoopMatcher exampleInput = Some (Inl (Error
    ''Unsupported pattern configuration. We currently support single pattern and multi-line loop pattern configurations''))"
proof -
  have h1: "1 < length (pattern noLoopMatcher)" by code_simp
  have h2: "loop (last (pattern noLoopMatcher)) \<noteq> Some True" by code_simp
  from h1 h2 match_unsupported[OF h1 h2, of exampleRegExp exampleInput] show ?thesis by simp
qed

text \<open>The engine never reads \<^verbatim>\<open>matcher.owner\<close>.\<close>

lemma runRegExp_owner: "runRegExp re line p (m\<lparr>owner := w\<rparr>) = runRegExp re line p m"
  by (simp add: runRegExp_def project_def defaultSeverity_def split: option.splits sum.splits)

lemma singleLoop_owner: "singleLoop re p (m\<lparr>owner := w\<rparr>) ls acc = singleLoop re p m ls acc"
  by (induction ls arbitrary: acc) (simp_all add: runRegExp_owner split: option.splits sum.splits)

lemma loopPhase_owner: "loopPhase re x (m\<lparr>owner := w\<rparr>) c ls ms = loopPhase re x m c ls ms"
  by (induction ls arbitrary: ms) (simp_all add: runRegExp_owner split: option.splits sum.splits)

lemma patternsLoop_owner:
  "patternsLoop rx (m\<lparr>owner := w\<rparr>) ps line c ls ms = patternsLoop rx m ps line c ls ms"
  by (induction ps arbitrary: line c ls ms)
     (simp_all add: runRegExp_owner loopPhase_owner split: option.splits sum.splits)

lemma whileLines_owner:
  "whileLines rx (m\<lparr>owner := w\<rparr>) lines ms = whileLines rx m lines ms"
proof (induction "length lines" arbitrary: lines ms rule: less_induct)
  case less
  show ?case
  proof (cases lines)
    case Nil
    then show ?thesis by (simp add: whileLines.simps)
  next
    case (Cons l ls)
    show ?thesis
    proof (cases "patternsLoop rx m (pattern m) (Some l) [] ls ms")
      case (Inl e)
      with Cons show ?thesis
        by (simp add: whileLines_Cons patternsLoop_owner)
    next
      case (Inr q)
      obtain lines' ms' where q: "q = (lines', ms')" by (cases q)
      from Inr q patternsLoop_length have "length lines' \<le> length ls" by blast
      with Cons have "length lines' < length lines" by simp
      from less[OF this] Cons Inr q show ?thesis
        by (simp add: whileLines_Cons patternsLoop_owner)
    qed
  qed
qed

text \<open>
  Claim C2. \<^verbatim>\<open>validateMatcher\<close> looks at \<^verbatim>\<open>matcher.pattern\<close> only, and no other
  function reads the owner: a matcher whose owner is the empty string is matched as it
  would be with any other owner. With a valid pattern the engine returns the record of
  the line \<^verbatim>\<open>1:x\<close> and throws nothing, where the claim and the repository's test
  "throws an error if the matcher is invalid (no owner)" expect the error "No
  matcher.owner provided".
\<close>

theorem match_empty_owner:
  "match rx (m\<lparr>owner := []\<rparr>) input = match rx m input \<and>
   owner noOwnerMatcher = [] \<and>
   match exampleRegExp noOwnerMatcher ''1:x''
     = Some (Inr [[(''line'', Some ''1''), (''message'', Some ''x''), (''severity'', None)]])"
proof -
  have "match rx (m\<lparr>owner := []\<rparr>) input = match rx m input"
    by (simp add: match_def validateMatcher_def singleMatch_def loopMatch_def singleLoop_owner
        whileLines_owner split: list.splits option.splits)
  moreover have "owner noOwnerMatcher = []" by code_simp
  moreover have "match exampleRegExp noOwnerMatcher ''1:x''
     = Some (Inr [[(''line'', Some ''1''), (''message'', Some ''x''), (''severity'', None)]])"
    by code_simp
  ultimately show ?thesis by simp
qed

end
